theory Spec2Isabelle
  imports Main
begin

section \<open>AutoTailor: passwordless sign-in and the generated-resume lifecycle\<close>

text \<open>
  A shallow embedding of the route functions of \<^verbatim>\<open>src/app.py\<close> over the tables of
  \<^verbatim>\<open>src/models.py\<close>. Each route is a function from the request, the inputs the
  environment supplies (clock, random draw) and the state of the application to a reply and
  the state afterwards. An exception that no handler of the source catches is the reply
  \<open>ServerError\<close>; what the request had not committed by then is not written.
\<close>

subsection \<open>Python strings\<close>

text \<open>
  Strings are \<open>string\<close>, each \<open>char\<close> read as one code point below 256.
  \<^verbatim>\<open>str.strip()\<close> removes the code points for which \<^verbatim>\<open>str.isspace\<close> holds:
  in that range U+0009..U+000D, U+001C..U+0020, U+0085 and U+00A0.
  \<^verbatim>\<open>str.lower()\<close> maps A..Z and the Latin-1 capitals U+00C0..U+00DE (without the
  multiplication sign U+00D7) to the letter 32 places further on.
\<close>

definition isspace :: "char \<Rightarrow> bool" where
  "isspace c =
     (let n = (of_char c :: nat)
      in (9 \<le> n \<and> n \<le> 13) \<or> (28 \<le> n \<and> n \<le> 32) \<or> n = 133 \<or> n = 160)"

definition strip :: "string \<Rightarrow> string" where
  "strip s = rev (dropWhile isspace (rev (dropWhile isspace s)))"

definition lower_char :: "char \<Rightarrow> char" where
  "lower_char c =
     (let n = (of_char c :: nat)
      in if (65 \<le> n \<and> n \<le> 90) \<or> (192 \<le> n \<and> n \<le> 222 \<and> n \<noteq> 215)
         then char_of (n + 32) else c)"

definition lower :: "string \<Rightarrow> string" where
  "lower s = map lower_char s"

text \<open>Decimal digits of a natural number, and the format \<^verbatim>\<open>f"{n:06d}"\<close> for \<open>n \<ge> 0\<close>:
  the digits, padded with zeros on the left to six characters (never truncated).\<close>

definition digit_char :: "nat \<Rightarrow> char" where
  "digit_char d = char_of (48 + d)"

function str_nat :: "nat \<Rightarrow> string" where
  "str_nat n = (if n < 10 then [digit_char n] else str_nat (n div 10) @ [digit_char (n mod 10)])"
  by pat_completeness auto
termination
  by (relation "measure (\<lambda>n. n)") auto

declare str_nat.simps [simp del]

definition format_06d :: "nat \<Rightarrow> string" where
  "format_06d n = (let s = str_nat n in replicate (6 - length s) (CHR ''0'') @ s)"

subsection \<open>Timestamps\<close>

text \<open>
  A \<^verbatim>\<open>datetime\<close> is its wall-clock reading in microseconds and its \<^verbatim>\<open>tzinfo\<close>:
  \<open>None\<close> for a naive value, \<open>Some off\<close> for an aware one with that UTC offset in
  microseconds. \<^verbatim>\<open>datetime.now(timezone.utc)\<close> is aware with offset 0; the clock reading
  is an input of the routes that read it.
\<close>

record datetime =
  wall :: int
  tzinfo :: "int option"

definition now_utc :: "int \<Rightarrow> datetime" where
  "now_utc t = \<lparr>wall = t, tzinfo = Some 0\<rparr>"

definition minutes :: "int \<Rightarrow> int" where
  "minutes m = m * 60000000"

definition add_timedelta :: "datetime \<Rightarrow> int \<Rightarrow> datetime" where
  "add_timedelta d delta = d\<lparr>wall := wall d + delta\<rparr>"

definition replace_tzinfo_utc :: "datetime \<Rightarrow> datetime" where
  "replace_tzinfo_utc d = d\<lparr>tzinfo := Some 0\<rparr>"

text \<open>\<^verbatim>\<open>a >= b\<close> on datetimes: two aware values are compared as instants (reading minus
  offset), two naive ones by their readings, and a naive with an aware one raises
  \<^verbatim>\<open>TypeError\<close> (\<open>None\<close>).\<close>

definition datetime_ge :: "datetime \<Rightarrow> datetime \<Rightarrow> bool option" where
  "datetime_ge a b =
     (case (tzinfo a, tzinfo b) of
        (Some oa, Some ob) \<Rightarrow> Some (wall a - oa \<ge> wall b - ob)
      | (None, None) \<Rightarrow> Some (wall a \<ge> wall b)
      | _ \<Rightarrow> None)"

text \<open>What the database hands back for a \<^verbatim>\<open>DateTime(timezone=True)\<close> column after a
  commit: SQLite keeps the reading and drops the zone (the comment in \<^verbatim>\<open>verify\<close>), a
  zone-aware backend returns the same instant at the offset of its connection.\<close>

datatype backend = NaiveDatetimes | AwareDatetimes int

definition persisted :: "backend \<Rightarrow> datetime \<Rightarrow> datetime" where
  "persisted b d =
     (case b of
        NaiveDatetimes \<Rightarrow> d\<lparr>tzinfo := None\<rparr>
      | AwareDatetimes off \<Rightarrow>
          (case tzinfo d of
             None \<Rightarrow> d
           | Some o0 \<Rightarrow> \<lparr>wall = wall d - o0 + off, tzinfo = Some off\<rparr>))"

subsection \<open>Tables (\<^verbatim>\<open>src/models.py\<close>)\<close>

record user =
  u_id :: nat
  u_email :: string
  verified :: int
  verify_code :: "string option"
  verify_expiry :: "datetime option"

record profile_row =
  p_id :: nat
  p_user_id :: nat
  full_name :: string
  city :: "string option"
  p_email :: "string option"
  phone :: "string option"
  linkedin :: "string option"
  github :: "string option"
  about :: "string option"
  gemini_api_key :: "string option"

record generated_resume =
  r_id :: nat
  r_user_id :: nat
  job_url :: string
  created_at :: datetime
  pdf_path :: string
  docx_path :: string
  pdf_name :: string
  docx_name :: string
  coverage_json :: "string option"

text \<open>\<^verbatim>\<open>Query.one_or_none()\<close>: no row, the only row, or \<^verbatim>\<open>MultipleResultsFound\<close>.\<close>

datatype 'a query_result = NoRow | OneRow 'a | MultipleResultsFound

fun one_or_none :: "'a list \<Rightarrow> 'a query_result" where
  "one_or_none [] = NoRow"
| "one_or_none [x] = OneRow x"
| "one_or_none (x # y # zs) = MultipleResultsFound"

text \<open>The integer primary key the database gives a new row: one more than the largest
  key of the table.\<close>

definition next_id :: "nat list \<Rightarrow> nat" where
  "next_id ids = Suc (fold max ids 0)"

text \<open>\<^verbatim>\<open>UPDATE t SET ... WHERE id = i\<close> and \<^verbatim>\<open>DELETE FROM t WHERE id = i\<close>, as the
  session issues them for a changed or deleted object at commit.\<close>

definition update_where :: "('a \<Rightarrow> nat) \<Rightarrow> nat \<Rightarrow> ('a \<Rightarrow> 'a) \<Rightarrow> 'a list \<Rightarrow> 'a list" where
  "update_where key i f rows = map (\<lambda>x. if key x = i then f x else x) rows"

definition delete_where :: "('a \<Rightarrow> nat) \<Rightarrow> nat \<Rightarrow> 'a list \<Rightarrow> 'a list" where
  "delete_where key i rows = filter (\<lambda>x. key x \<noteq> i) rows"

text \<open>\<^verbatim>\<open>Session.get(Model, i)\<close>: the row with primary key \<open>i\<close>, if any.\<close>

definition sess_get :: "('a \<Rightarrow> nat) \<Rightarrow> 'a list \<Rightarrow> nat \<Rightarrow> 'a option" where
  "sess_get key rows i = find (\<lambda>x. key x = i) rows"

subsection \<open>The application state and its environment\<close>

text \<open>The profile snapshot handed to the Renderer and what the Renderer returns
  (\<^verbatim>\<open>adapters.resume_engine.generate_both\<close>); \<open>rr_coverage\<close> is the text
  \<^verbatim>\<open>json.dumps(result.get("coverage", {}))\<close>.\<close>

record profile_dict =
  d_full_name :: string
  d_city :: "string option"
  d_email :: "string option"
  d_phone :: "string option"
  d_linkedin :: "string option"
  d_github :: "string option"
  d_about :: "string option"
  d_gemini_api_key :: "string option"

record render_result =
  rr_pdf :: string
  rr_docx :: string
  rr_filename_pdf :: string
  rr_filename_docx :: string
  rr_coverage :: string

text \<open>
  The state: the three tables, the user id held by the login session
  (\<^verbatim>\<open>login_user\<close>, \<^verbatim>\<open>logout_user\<close>), the artifact storage \<open>storage\<close> (of any type
  \<open>'fs\<close>), the lines printed on the console, and the calls made to the Renderer so far.
\<close>

record 'fs world =
  users :: "user list"
  profiles :: "profile_row list"
  resumes :: "generated_resume list"
  session_user :: "nat option"
  storage :: 'fs
  console :: "string list"
  renderer_calls :: "(profile_dict \<times> string) list"

text \<open>
  What the application is started with and the collaborators it calls: the two schema
  flags computed in \<^verbatim>\<open>create_app\<close>, the database backend, the \<^verbatim>\<open>Email()\<close>
  validator, the Renderer (\<open>None\<close>: it raised an \<^verbatim>\<open>Exception\<close>), whether
  \<^verbatim>\<open>json.loads\<close> and \<^verbatim>\<open>urlparse\<close> return on a text, and the operating-system calls
  on the storage. A call that
  changes the storage returns whether it came back without raising, and the storage
  afterwards; a call that only reads returns \<open>None\<close> when it raised. The theorems hold
  for every behaviour of these calls.
\<close>

record 'fs env =
  HAS_PROFILE_ABOUT :: bool
  HAS_PROFILE_GEMINI :: bool
  db_backend :: backend
  email_validator :: "string \<Rightarrow> bool"
  generate_both :: "profile_dict \<Rightarrow> string \<Rightarrow> render_result option"
  json_loads_ok :: "string \<Rightarrow> bool"
  urlparse_ok :: "string \<Rightarrow> bool"
  os_path_exists :: "'fs \<Rightarrow> string \<Rightarrow> bool option"
  os_remove :: "'fs \<Rightarrow> string \<Rightarrow> bool \<times> 'fs"
  os_path_isdir :: "'fs \<Rightarrow> string \<Rightarrow> bool option"
  os_listdir :: "'fs \<Rightarrow> string \<Rightarrow> string list option"
  os_rmdir :: "'fs \<Rightarrow> string \<Rightarrow> bool \<times> 'fs"
  tempfile_mkdtemp :: "'fs \<Rightarrow> string \<Rightarrow> string option \<times> 'fs"
  write_file :: "'fs \<Rightarrow> string \<Rightarrow> string \<Rightarrow> bool \<times> 'fs"

subsection \<open>Requests, forms and replies\<close>

datatype http_method = GET | HEAD | POST

text \<open>A request: its method, whether its CSRF token is valid, and the data of the
  form's fields (\<^verbatim>\<open>field.data\<close>, \<open>None\<close> when the field was not sent).\<close>

record 'f request =
  request_method :: http_method
  csrf_ok :: bool
  form :: 'f

record signin_form =
  sf_email :: "string option"

record verify_form =
  vf_email :: "string option"
  vf_code :: "string option"

record profile_form =
  pf_full_name :: "string option"
  pf_city :: "string option"
  pf_email :: "string option"
  pf_phone :: "string option"
  pf_web :: "string option"
  pf_about :: "string option"
  pf_gemini_api_key :: "string option"

record tailor_form =
  tf_url :: "string option"

datatype response =
    Redirect string "(string \<times> string) list"
  | RenderTemplate string
  | Abort nat
  | SendFile string string
  | Unauthorized
  | ServerError

record 'fs reply =
  flashed :: "string list"
  response :: response
  state :: "'fs world"

definition respond :: "response \<Rightarrow> 'fs world \<Rightarrow> 'fs reply" where
  "respond r w = \<lparr>flashed = [], response = r, state = w\<rparr>"

definition flash_and :: "string \<Rightarrow> response \<Rightarrow> 'fs world \<Rightarrow> 'fs reply" where
  "flash_and msg r w = \<lparr>flashed = [msg], response = r, state = w\<rparr>"

text \<open>The validators of WTForms. \<^verbatim>\<open>DataRequired\<close>: the data is a non-empty string that
  is not only whitespace. \<^verbatim>\<open>Length(min, max)\<close>: the length of the data (0 for missing
  data) lies between the bounds. \<^verbatim>\<open>Email\<close>: the data is present and the e-mail
  validator accepts it.\<close>

definition DataRequired :: "string option \<Rightarrow> bool" where
  "DataRequired d = (case d of None \<Rightarrow> False | Some s \<Rightarrow> s \<noteq> [] \<and> strip s \<noteq> [])"

definition Length :: "nat \<Rightarrow> nat \<Rightarrow> string option \<Rightarrow> bool" where
  "Length lo hi d = (let n = (case d of None \<Rightarrow> 0 | Some s \<Rightarrow> length s) in lo \<le> n \<and> n \<le> hi)"

definition Email :: "'fs env \<Rightarrow> string option \<Rightarrow> bool" where
  "Email env d = (case d of None \<Rightarrow> False | Some s \<Rightarrow> email_validator env s)"

text \<open>\<^verbatim>\<open>form.validate_on_submit()\<close>: the request is a submission, its CSRF token is
  valid and every field passes its validators.\<close>

definition validate_on_submit :: "'f request \<Rightarrow> bool \<Rightarrow> bool" where
  "validate_on_submit req fields_valid = (request_method req = POST \<and> csrf_ok req \<and> fields_valid)"

definition SigninForm :: "'fs env \<Rightarrow> signin_form \<Rightarrow> bool" where
  "SigninForm env f =
     (DataRequired (sf_email f) \<and> Email env (sf_email f) \<and> Length 0 255 (sf_email f))"

definition VerifyForm :: "'fs env \<Rightarrow> verify_form \<Rightarrow> bool" where
  "VerifyForm env f =
     (DataRequired (vf_email f) \<and> Email env (vf_email f) \<and> Length 0 255 (vf_email f)
      \<and> DataRequired (vf_code f) \<and> Length 6 6 (vf_code f))"

subsection \<open>Sign-in and verification (\<^verbatim>\<open>signin\<close>, \<^verbatim>\<open>verify\<close>)\<close>

text \<open>\<^verbatim>\<open>signin\<close>: \<open>now\<close> is the clock reading and \<open>r\<close> the value
  \<^verbatim>\<open>random.randint(0, 999999)\<close> returned. \<open>issue_code\<close> is the two assignments
  to the user object (lines 133 to 135), \<open>new_user\<close> the object
  \<^verbatim>\<open>User(email=email, verified=0)\<close> with the key it gets at the flush.\<close>

definition issue_code :: "'fs env \<Rightarrow> int \<Rightarrow> nat \<Rightarrow> user \<Rightarrow> user" where
  "issue_code env now r u =
     u\<lparr>verify_code := Some (format_06d r),
       verify_expiry :=
         Some (persisted (db_backend env) (add_timedelta (now_utc now) (minutes 10)))\<rparr>"

definition new_user :: "nat \<Rightarrow> string \<Rightarrow> user" where
  "new_user i email =
     \<lparr>u_id = i, u_email = email, verified = 0, verify_code = None, verify_expiry = None\<rparr>"

definition signin :: "'fs env \<Rightarrow> signin_form request \<Rightarrow> int \<Rightarrow> nat \<Rightarrow> 'fs world \<Rightarrow> 'fs reply" where
  "signin env req now r w =
     (if request_method req = POST \<and> validate_on_submit req (SigninForm env (form req)) then
        (case sf_email (form req) of
           None \<Rightarrow> respond ServerError w
         | Some raw \<Rightarrow>
             let email = lower (strip raw) in
             (case one_or_none (filter (\<lambda>u. u_email u = email) (users w)) of
                MultipleResultsFound \<Rightarrow> respond ServerError w
              | found \<Rightarrow>
                  let (uid, rows) =
                        (case found of
                           OneRow u \<Rightarrow> (u_id u, users w)
                         | _ \<Rightarrow>
                             (let i = next_id (map u_id (users w))
                              in (i, users w @ [new_user i email])))
                  in respond (Redirect ''verify'' [(''email'', email)])
                       (w\<lparr>users := update_where u_id uid (issue_code env now r) rows,
                          console :=
                            console w @ [''[DEV] Verification code: '' @ format_06d r]\<rparr>)))
      else respond (RenderTemplate ''signin.html'') w)"

text \<open>The two ways \<^verbatim>\<open>verify\<close> ends after the form validated: the refusal, which is the
  same for every reason, and the acceptance of the code for the user \<open>u\<close>.\<close>

definition invalid_or_expired :: "'fs world \<Rightarrow> 'fs reply" where
  "invalid_or_expired w = flash_and ''Invalid or expired code'' (Redirect ''signin'' []) w"

definition mark_verified :: "user \<Rightarrow> user" where
  "mark_verified u = u\<lparr>verified := 1, verify_code := None, verify_expiry := None\<rparr>"

definition verified_ok :: "user \<Rightarrow> 'fs world \<Rightarrow> 'fs reply" where
  "verified_ok u w =
     (let w1 = w\<lparr>users := update_where u_id (u_id u) mark_verified (users w),
                 session_user := Some (u_id u)\<rparr>
      in case one_or_none (filter (\<lambda>p. p_user_id p = u_id u) (profiles w1)) of
           MultipleResultsFound \<Rightarrow> respond ServerError w1
         | NoRow \<Rightarrow> respond (Redirect ''profile'' []) w1
         | OneRow prof \<Rightarrow>
             if strip (full_name prof) = [] then respond (Redirect ''profile'' []) w1
             else respond (Redirect ''tailor'' []) w1)"

definition verify :: "'fs env \<Rightarrow> verify_form request \<Rightarrow> int \<Rightarrow> 'fs world \<Rightarrow> 'fs reply" where
  "verify env req now w =
     (if request_method req = POST \<and> validate_on_submit req (VerifyForm env (form req)) then
        (case (vf_email (form req), vf_code (form req)) of
           (Some raw_email, Some raw_code) \<Rightarrow>
             let email = lower (strip raw_email);
                 code = strip raw_code
             in (case one_or_none (filter (\<lambda>u. u_email u = email) (users w)) of
                   MultipleResultsFound \<Rightarrow> respond ServerError w
                 | NoRow \<Rightarrow> invalid_or_expired w
                 | OneRow u \<Rightarrow>
                     let expiry =
                           (case verify_expiry u of
                              None \<Rightarrow> None
                            | Some d \<Rightarrow>
                                if tzinfo d = None then Some (replace_tzinfo_utc d) else Some d)
                     in if verify_code u = Some code then
                          (case expiry of
                             None \<Rightarrow> invalid_or_expired w
                           | Some e \<Rightarrow>
                               (case datetime_ge e (now_utc now) of
                                  None \<Rightarrow> respond ServerError w
                                | Some False \<Rightarrow> invalid_or_expired w
                                | Some True \<Rightarrow> verified_ok u w))
                        else invalid_or_expired w)
         | _ \<Rightarrow> respond ServerError w)
      else respond (RenderTemplate ''verify.html'') w)"

subsection \<open>Profile (\<^verbatim>\<open>profile\<close>)\<close>

text \<open>Python's \<^verbatim>\<open>a or b\<close> on optional strings: \<open>a\<close> unless it is \<^verbatim>\<open>None\<close> or empty.\<close>

definition py_or :: "string option \<Rightarrow> string option \<Rightarrow> string option" where
  "py_or a b = (case a of None \<Rightarrow> b | Some s \<Rightarrow> if s = [] then b else Some s)"

definition or_empty :: "string option \<Rightarrow> string" where
  "or_empty a = (case a of None \<Rightarrow> [] | Some s \<Rightarrow> s)"

definition ProfileForm :: "'fs env \<Rightarrow> profile_form \<Rightarrow> bool" where
  "ProfileForm env f =
     (DataRequired (pf_full_name f) \<and> Length 0 255 (pf_full_name f)
      \<and> Length 0 255 (pf_city f)
      \<and> Email env (pf_email f) \<and> Length 0 255 (pf_email f)
      \<and> Length 0 64 (pf_phone f)
      \<and> Length 0 255 (pf_web f)
      \<and> Length 0 5000 (pf_about f)
      \<and> Length 0 255 (pf_gemini_api_key f))"

text \<open>The assignments under \<^verbatim>\<open>if prof:\<close> (lines 184 to 194). They run for every
  method, before \<^verbatim>\<open>validate_on_submit\<close>, and replace the data of the bound fields by
  the values of the stored profile.\<close>

definition prefill :: "'fs env \<Rightarrow> user \<Rightarrow> profile_row \<Rightarrow> profile_form \<Rightarrow> profile_form" where
  "prefill env cu prof f =
     f\<lparr>pf_full_name := Some (full_name prof),
       pf_city := city prof,
       pf_email := py_or (p_email prof) (Some (u_email cu)),
       pf_phone := phone prof,
       pf_web := py_or (linkedin prof) (github prof),
       pf_about := (if HAS_PROFILE_ABOUT env then about prof else pf_about f),
       pf_gemini_api_key :=
         (if HAS_PROFILE_GEMINI env then gemini_api_key prof else pf_gemini_api_key f)\<rparr>"

text \<open>The dictionary \<^verbatim>\<open>data\<close> and the two optional columns, written to a profile row.\<close>

definition assign_data :: "'fs env \<Rightarrow> string \<Rightarrow> profile_form \<Rightarrow> profile_row \<Rightarrow> profile_row" where
  "assign_data env name f p =
     p\<lparr>full_name := strip name,
       city := Some (strip (or_empty (pf_city f))),
       p_email := Some (strip (or_empty (pf_email f))),
       phone := Some (strip (or_empty (pf_phone f))),
       linkedin := Some (strip (or_empty (pf_web f))),
       github := None,
       about := (if HAS_PROFILE_ABOUT env then Some (strip (or_empty (pf_about f))) else about p),
       gemini_api_key :=
         (if HAS_PROFILE_GEMINI env then Some (strip (or_empty (pf_gemini_api_key f)))
          else gemini_api_key p)\<rparr>"

definition blank_profile :: "nat \<Rightarrow> nat \<Rightarrow> profile_row" where
  "blank_profile i uid =
     \<lparr>p_id = i, p_user_id = uid, full_name = [], city = None, p_email = None, phone = None,
      linkedin = None, github = None, about = None, gemini_api_key = None\<rparr>"

definition profile :: "'fs env \<Rightarrow> user \<Rightarrow> profile_form request \<Rightarrow> 'fs world \<Rightarrow> 'fs reply" where
  "profile env cu req w =
     (case one_or_none (filter (\<lambda>p. p_user_id p = u_id cu) (profiles w)) of
        MultipleResultsFound \<Rightarrow> respond ServerError w
      | found \<Rightarrow>
          let f = (case found of OneRow prof \<Rightarrow> prefill env cu prof (form req) | _ \<Rightarrow> form req)
          in if request_method req = POST \<and> validate_on_submit req (ProfileForm env f) then
               (case pf_full_name f of
                  None \<Rightarrow> respond ServerError w
                | Some name \<Rightarrow>
                    (case found of
                       OneRow prof \<Rightarrow>
                         flash_and ''Saved'' (Redirect ''tailor'' [])
                           (w\<lparr>profiles :=
                                update_where p_id (p_id prof) (assign_data env name f) (profiles w)\<rparr>)
                     | _ \<Rightarrow>
                         flash_and ''Saved'' (Redirect ''tailor'' [])
                           (w\<lparr>profiles :=
                                profiles w @
                                [assign_data env name f
                                   (blank_profile (next_id (map p_id (profiles w))) (u_id cu))]\<rparr>)))
             else respond (RenderTemplate ''profile.html'') w)"

subsection \<open>Generation (\<^verbatim>\<open>tailor\<close>)\<close>

text \<open>\<^verbatim>\<open>os.path.join(a, b)\<close> and \<^verbatim>\<open>os.path.dirname(p)\<close> of \<^verbatim>\<open>posixpath\<close>.\<close>

definition os_path_join :: "string \<Rightarrow> string \<Rightarrow> string" where
  "os_path_join a b =
     (if b \<noteq> [] \<and> hd b = CHR ''/'' then b
      else if a = [] \<or> last a = CHR ''/'' then a @ b
      else a @ ''/'' @ b)"

definition os_path_dirname :: "string \<Rightarrow> string" where
  "os_path_dirname p =
     (let head = rev (dropWhile (\<lambda>c. c \<noteq> CHR ''/'') (rev p))
      in if head \<noteq> [] \<and> \<not> list_all (\<lambda>c. c = CHR ''/'') head
         then rev (dropWhile (\<lambda>c. c = CHR ''/'') (rev head)) else head)"

definition TailorForm :: "tailor_form \<Rightarrow> bool" where
  "TailorForm f = (DataRequired (tf_url f) \<and> Length 0 2000 (tf_url f))"

definition profile_incomplete :: "'fs world \<Rightarrow> 'fs reply" where
  "profile_incomplete w =
     flash_and ''Please complete your profile (full name is required).'' (Redirect ''profile'' []) w"

definition render_failed :: "'fs world \<Rightarrow> 'fs reply" where
  "render_failed w =
     flash_and ''Failed to generate resume. Check server dependencies (WeasyPrint).''
       (RenderTemplate ''tailor.html'') w"

definition snapshot :: "'fs env \<Rightarrow> user \<Rightarrow> profile_row \<Rightarrow> profile_dict" where
  "snapshot env cu prof =
     \<lparr>d_full_name = full_name prof,
      d_city = city prof,
      d_email = py_or (p_email prof) (Some (u_email cu)),
      d_phone = phone prof,
      d_linkedin = linkedin prof,
      d_github = github prof,
      d_about = (if HAS_PROFILE_ABOUT env then about prof else None),
      d_gemini_api_key = (if HAS_PROFILE_GEMINI env then gemini_api_key prof else None)\<rparr>"

text \<open>The part of \<^verbatim>\<open>tailor\<close> after the Renderer returned: the scratch directory, the two
  files, the row. A call of the operating system that raises ends the request with the
  files written so far left in place and no row.\<close>

definition store_result ::
  "'fs env \<Rightarrow> user \<Rightarrow> string \<Rightarrow> int \<Rightarrow> render_result \<Rightarrow> 'fs world \<Rightarrow> 'fs reply" where
  "store_result env cu url now result w =
     (case tempfile_mkdtemp env (storage w) ''autotailor_'' of
        (None, fs1) \<Rightarrow> respond ServerError (w\<lparr>storage := fs1\<rparr>)
      | (Some tmpdir, fs1) \<Rightarrow>
          let pdf = os_path_join tmpdir (rr_filename_pdf result);
              docx = os_path_join tmpdir (rr_filename_docx result)
          in (case write_file env fs1 pdf (rr_pdf result) of
                (False, fs2) \<Rightarrow> respond ServerError (w\<lparr>storage := fs2\<rparr>)
              | (True, fs2) \<Rightarrow>
                  (case write_file env fs2 docx (rr_docx result) of
                     (False, fs3) \<Rightarrow> respond ServerError (w\<lparr>storage := fs3\<rparr>)
                   | (True, fs3) \<Rightarrow>
                       let row = \<lparr>r_id = next_id (map r_id (resumes w)),
                                  r_user_id = u_id cu,
                                  job_url = url,
                                  created_at = persisted (db_backend env) (now_utc now),
                                  pdf_path = pdf,
                                  docx_path = docx,
                                  pdf_name = rr_filename_pdf result,
                                  docx_name = rr_filename_docx result,
                                  coverage_json = Some (rr_coverage result)\<rparr>
                       in respond (Redirect ''result'' [(''id'', str_nat (r_id row))])
                            (w\<lparr>storage := fs3, resumes := resumes w @ [row]\<rparr>))))"

definition tailor :: "'fs env \<Rightarrow> user \<Rightarrow> tailor_form request \<Rightarrow> int \<Rightarrow> 'fs world \<Rightarrow> 'fs reply" where
  "tailor env cu req now w =
     (case one_or_none (filter (\<lambda>p. p_user_id p = u_id cu) (profiles w)) of
        MultipleResultsFound \<Rightarrow> respond ServerError w
      | NoRow \<Rightarrow> profile_incomplete w
      | OneRow prof \<Rightarrow>
          if strip (full_name prof) = [] then profile_incomplete w
          else if request_method req = POST \<and> validate_on_submit req (TailorForm (form req)) then
            (let url = strip (or_empty (tf_url (form req)))
             in if url = [] then
                  flash_and ''Paste a job posting URL.'' (RenderTemplate ''tailor.html'') w
                else
                  (let profile_dict = snapshot env cu prof;
                       w1 = w\<lparr>renderer_calls := renderer_calls w @ [(profile_dict, url)]\<rparr>
                   in case generate_both env profile_dict url of
                        None \<Rightarrow> render_failed w1
                      | Some result \<Rightarrow> store_result env cu url now result w1))
          else respond (RenderTemplate ''tailor.html'') w)"

subsection \<open>Results, deletion and download\<close>

text \<open>\<^verbatim>\<open>result\<close>: the page of one generated resume. It reads only; \<^verbatim>\<open>json.loads\<close> or
  \<^verbatim>\<open>urlparse\<close> raising ends the request.\<close>

definition result :: "'fs env \<Rightarrow> user \<Rightarrow> nat \<Rightarrow> 'fs world \<Rightarrow> 'fs reply" where
  "result env cu i w =
     (case sess_get r_id (resumes w) i of
        None \<Rightarrow> respond (Abort 404) w
      | Some row \<Rightarrow>
          if r_user_id row \<noteq> u_id cu then respond (Abort 404) w
          else if \<not> json_loads_ok env
                      (case py_or (coverage_json row) (Some ''{}'') of Some s \<Rightarrow> s | None \<Rightarrow> [])
          then respond ServerError w
          else if \<not> urlparse_ok env (job_url row) then respond ServerError w
          else respond (RenderTemplate ''result.html'') w)"

text \<open>One turn of the loop over the two paths, and the removal of the scratch directory.
  In both, an exception of the operating system is caught by \<^verbatim>\<open>except Exception: pass\<close>:
  whether the call raised is dropped, the storage it left is kept.\<close>

definition remove_if_exists :: "'fs env \<Rightarrow> string \<Rightarrow> 'fs \<Rightarrow> 'fs" where
  "remove_if_exists env p fs =
     (if p \<noteq> [] then
        (case os_path_exists env fs p of
           None \<Rightarrow> fs
         | Some found \<Rightarrow> if found then snd (os_remove env fs p) else fs)
      else fs)"

definition remove_dir_if_empty :: "'fs env \<Rightarrow> string \<Rightarrow> 'fs \<Rightarrow> 'fs" where
  "remove_dir_if_empty env p fs =
     (let d = os_path_dirname p
      in if d \<noteq> [] then
           (case os_path_isdir env fs d of
              None \<Rightarrow> fs
            | Some isdir \<Rightarrow>
                if isdir then
                  (case os_listdir env fs d of
                     None \<Rightarrow> fs
                   | Some names \<Rightarrow> if length names = 0 then snd (os_rmdir env fs d) else fs)
                else fs)
         else fs)"

definition delete_resume :: "'fs env \<Rightarrow> user \<Rightarrow> unit request \<Rightarrow> nat \<Rightarrow> 'fs world \<Rightarrow> 'fs reply" where
  "delete_resume env cu req i w =
     (if \<not> validate_on_submit req True then respond (Abort 400) w
      else
        (case sess_get r_id (resumes w) i of
           None \<Rightarrow> respond (Abort 404) w
         | Some row \<Rightarrow>
             if r_user_id row \<noteq> u_id cu then respond (Abort 404) w
             else
               (let fs1 = fold (remove_if_exists env) [pdf_path row, docx_path row] (storage w);
                    fs2 = remove_dir_if_empty env (pdf_path row) fs1
                in flash_and ''Deleted resume'' (Redirect ''tailor'' [])
                     (w\<lparr>storage := fs2,
                        resumes := delete_where r_id (r_id row) (resumes w)\<rparr>))))"

text \<open>\<^verbatim>\<open>download\<close>: \<open>SendFile path name\<close> is the call
  \<^verbatim>\<open>send_file(path, as_attachment=True, download_name=name)\<close>.\<close>

definition download :: "user \<Rightarrow> nat \<Rightarrow> string \<Rightarrow> 'fs world \<Rightarrow> 'fs reply" where
  "download cu i kind w =
     (case sess_get r_id (resumes w) i of
        None \<Rightarrow> respond (Abort 404) w
      | Some row \<Rightarrow>
          if r_user_id row \<noteq> u_id cu then respond (Abort 404) w
          else if kind = ''pdf'' then respond (SendFile (pdf_path row) (pdf_name row)) w
          else if kind = ''docx'' then respond (SendFile (docx_path row) (docx_name row)) w
          else respond (Abort 404) w)"

subsection \<open>The application\<close>

text \<open>\<^verbatim>\<open>current_user\<close> is the user row \<^verbatim>\<open>load_user\<close> finds for the id of the login
  session; \<^verbatim>\<open>@login_required\<close> runs the view for it, and when there is none replies
  with what the unauthorized handler of Flask-Login returns (\<open>Unauthorized\<close>).\<close>

definition current_user :: "'fs world \<Rightarrow> user option" where
  "current_user w =
     (case session_user w of None \<Rightarrow> None | Some i \<Rightarrow> sess_get u_id (users w) i)"

definition login_required :: "(user \<Rightarrow> 'fs world \<Rightarrow> 'fs reply) \<Rightarrow> 'fs world \<Rightarrow> 'fs reply" where
  "login_required view w =
     (case current_user w of None \<Rightarrow> respond Unauthorized w | Some cu \<Rightarrow> view cu w)"

definition index :: "'fs world \<Rightarrow> 'fs reply" where
  "index w =
     (if current_user w \<noteq> None then respond (Redirect ''tailor'' []) w
      else respond (Redirect ''signin'' []) w)"

definition logout :: "'fs world \<Rightarrow> 'fs reply" where
  "logout w =
     (if current_user w \<noteq> None then respond (Redirect ''signin'' []) (w\<lparr>session_user := None\<rparr>)
      else respond (Redirect ''signin'' []) w)"

text \<open>A call of one route, with the inputs the environment supplies to it. The routes
  without a request are registered for \<^verbatim>\<open>GET\<close> only; \<^verbatim>\<open>delete_resume\<close> is registered
  for \<^verbatim>\<open>POST\<close> only, and Flask answers 405 to any other method before the view
  runs.\<close>

datatype call =
    Index
  | Signin "signin_form request" int nat
  | Verify "verify_form request" int
  | Profile "profile_form request"
  | Tailor "tailor_form request" int
  | Result nat
  | DeleteResume "unit request" nat
  | Download nat string
  | Logout

fun handle :: "'fs env \<Rightarrow> call \<Rightarrow> 'fs world \<Rightarrow> 'fs reply" where
  "handle env Index w = index w"
| "handle env (Signin req now r) w = signin env req now r w"
| "handle env (Verify req now) w = verify env req now w"
| "handle env (Profile req) w = login_required (\<lambda>cu. profile env cu req) w"
| "handle env (Tailor req now) w = login_required (\<lambda>cu. tailor env cu req now) w"
| "handle env (Result i) w = login_required (\<lambda>cu. result env cu i) w"
| "handle env (DeleteResume req i) w =
     (if request_method req \<noteq> POST then respond (Abort 405) w
      else login_required (\<lambda>cu. delete_resume env cu req i) w)"
| "handle env (Download i kind) w = login_required (\<lambda>cu. download cu i kind) w"
| "handle env Logout w = logout w"

text \<open>The state after a sequence of calls.\<close>

fun run :: "'fs env \<Rightarrow> call list \<Rightarrow> 'fs world \<Rightarrow> 'fs world" where
  "run env [] w = w"
| "run env (c # cs) w = run env cs (state (handle env c w))"

subsection \<open>The operations of the specification as calls of the routes\<close>

text \<open>A submitted form with a valid CSRF token; \<^verbatim>\<open>request_code(email)\<close> and
  \<^verbatim>\<open>verify_code(email, code)\<close> are the routes \<^verbatim>\<open>signin\<close> and \<^verbatim>\<open>verify\<close> on such a
  submission.\<close>

definition post :: "'f \<Rightarrow> 'f request" where
  "post f = \<lparr>request_method = POST, csrf_ok = True, form = f\<rparr>"

definition request_code :: "'fs env \<Rightarrow> string \<Rightarrow> int \<Rightarrow> nat \<Rightarrow> 'fs world \<Rightarrow> 'fs reply" where
  "request_code env e now r w = signin env (post \<lparr>sf_email = Some e\<rparr>) now r w"

definition submit_code :: "'fs env \<Rightarrow> string \<Rightarrow> string \<Rightarrow> int \<Rightarrow> 'fs world \<Rightarrow> 'fs reply" where
  "submit_code env e c now w = verify env (post \<lparr>vf_email = Some e, vf_code = Some c\<rparr>) now w"

text \<open>The account of an e-mail address, and the instant a stored expiry denotes when a
  reading without zone is read as UTC.\<close>

definition account :: "'fs world \<Rightarrow> string \<Rightarrow> user option" where
  "account w e = find (\<lambda>u. u_email u = lower (strip e)) (users w)"

definition utc_instant :: "datetime \<Rightarrow> int" where
  "utc_instant d = (case tzinfo d of None \<Rightarrow> wall d | Some off \<Rightarrow> wall d - off)"

definition expired :: "user \<Rightarrow> int \<Rightarrow> bool" where
  "expired u now = (case verify_expiry u of None \<Rightarrow> True | Some d \<Rightarrow> utc_instant d < now)"

text \<open>The invariant of an account: code and expiry are both set or both null.\<close>

definition paired :: "user \<Rightarrow> bool" where
  "paired u = (verify_code u = None \<longleftrightarrow> verify_expiry u = None)"

definition codes_paired :: "'fs world \<Rightarrow> bool" where
  "codes_paired w = list_all paired (users w)"

text \<open>\<open>keeps_verified us us'\<close>: every row of \<open>us\<close> is still there in \<open>us'\<close>, at its place
  and with its id and e-mail, and is verified in \<open>us'\<close> if it was in \<open>us\<close>.\<close>

definition keeps_verified :: "user list \<Rightarrow> user list \<Rightarrow> bool" where
  "keeps_verified us us' =
     (length us \<le> length us' \<and>
      list_all2 (\<lambda>u u'. u_id u' = u_id u \<and> u_email u' = u_email u
                         \<and> (verified u = 1 \<longrightarrow> verified u' = 1))
        us (take (length us) us'))"



subsection \<open>A concrete environment\<close>

text \<open>An environment to run the routes in: the storage is the list of the paths of the
  files that exist, removing a file that is not there raises, directories are not
  tracked, the e-mail validator asks for an at sign, and the Renderer raises.\<close>

definition sample_env :: "string list env" where
  "sample_env =
     \<lparr>HAS_PROFILE_ABOUT = True,
      HAS_PROFILE_GEMINI = True,
      db_backend = NaiveDatetimes,
      email_validator = (\<lambda>s. CHR ''@'' \<in> set s),
      generate_both = (\<lambda>d url. None),
      json_loads_ok = (\<lambda>s. True),
      urlparse_ok = (\<lambda>s. True),
      os_path_exists = (\<lambda>fs p. Some (p \<in> set fs)),
      os_remove = (\<lambda>fs p. if p \<in> set fs then (True, removeAll p fs) else (False, fs)),
      os_path_isdir = (\<lambda>fs d. Some True),
      os_listdir = (\<lambda>fs d. Some (filter (\<lambda>p. os_path_dirname p = d) fs)),
      os_rmdir = (\<lambda>fs d. (True, fs)),
      tempfile_mkdtemp = (\<lambda>fs prefix. (Some (''/tmp/'' @ prefix @ str_nat (length fs)), fs)),
      write_file = (\<lambda>fs p data. (True, p # fs))\<rparr>"

definition empty_world :: "string list world" where
  "empty_world =
     \<lparr>users = [], profiles = [], resumes = [], session_user = None, storage = [],
      console = [], renderer_calls = []\<rparr>"

text \<open>A world with one verified account, its profile and one generated resume whose
  PDF file is gone from the storage.\<close>

definition jane :: user where
  "jane = \<lparr>u_id = 1, u_email = ''jane@x.com'', verified = 1,
           verify_code = None, verify_expiry = None\<rparr>"

definition jane_profile :: profile_row where
  "jane_profile =
     \<lparr>p_id = 1, p_user_id = 1, full_name = ''Jane Doe'', city = Some ''Oslo'',
      p_email = Some ''jane@x.com'', phone = Some [], linkedin = Some ''old.example/jane'',
      github = None, about = Some [], gemini_api_key = Some []\<rparr>"

definition jane_resume :: generated_resume where
  "jane_resume =
     \<lparr>r_id = 7, r_user_id = 1, job_url = ''https://boards.example.com/job/42'',
      created_at = \<lparr>wall = 0, tzinfo = None\<rparr>,
      pdf_path = ''/tmp/autotailor_a/Resume_Jane_Doe.pdf'',
      docx_path = ''/tmp/autotailor_a/Resume_Jane_Doe.docx'',
      pdf_name = ''Resume_Jane_Doe.pdf'', docx_name = ''Resume_Jane_Doe.docx'',
      coverage_json = Some ''{}''\<rparr>"

definition jane_world :: "string list world" where
  "jane_world =
     \<lparr>users = [jane], profiles = [jane_profile], resumes = [jane_resume],
      session_user = Some 1, storage = [''/tmp/autotailor_a/Resume_Jane_Doe.docx''],
      console = [], renderer_calls = []\<rparr>"

text \<open>A world with one unverified account that holds a pending code, issued at clock
  reading 1 on a backend that drops the zone.\<close>

definition pending :: user where
  "pending = \<lparr>u_id = 1, u_email = ''a@x.com'', verified = 0, verify_code = Some ''000007'',
              verify_expiry = Some \<lparr>wall = 600000001, tzinfo = None\<rparr>\<rparr>"

definition pending_world :: "string list world" where
  "pending_world = empty_world\<lparr>users := [pending]\<rparr>"

section \<open>Properties\<close>

subsection \<open>Strings and codes\<close>















subsection \<open>Queries and updates\<close>

lemma one_or_none_find:
  "distinct (map f xs) \<Longrightarrow>
   one_or_none (filter (\<lambda>x. f x = v) xs) =
     (case find (\<lambda>x. f x = v) xs of None \<Rightarrow> NoRow | Some x \<Rightarrow> OneRow x)"
proof (induction xs)
  case Nil
  then show ?case by simp
next
  case (Cons a xs)
  show ?case
  proof (cases "f a = v")
    case True
    then have "filter (\<lambda>x. f x = v) xs = []" using Cons.prems by (auto simp: filter_empty_conv image_iff)
    with True show ?thesis by simp
  next
    case False
    with Cons show ?thesis by simp
  qed
qed

lemma one_or_none_OneRow: "one_or_none xs = OneRow u \<Longrightarrow> xs = [u]"
  by (cases xs rule: one_or_none.cases) auto

lemma find_update_where:
  assumes "\<And>x. f (g x) = f x"
  shows "find (\<lambda>x. f x = v) (update_where key i g xs) =
         map_option (\<lambda>x. if key x = i then g x else x) (find (\<lambda>x. f x = v) xs)"
  using assms by (induction xs) (auto simp: update_where_def)

lemma map_update_where:
  assumes "\<And>x. f (g x) = f x"
  shows "map f (update_where key i g xs) = map f xs"
  using assms by (induction xs) (auto simp: update_where_def)

lemma find_None_append:
  "find P xs = None \<Longrightarrow> find P (xs @ ys) = find P ys"
  by (induction xs) (auto split: if_splits)

lemma list_all_update_where:
  "list_all P rows \<Longrightarrow> (\<And>x. P (f x)) \<Longrightarrow> list_all P (update_where key i f rows)"
  by (induction rows) (auto simp: update_where_def)

lemma sess_get_key: "sess_get key rows i = Some row \<Longrightarrow> key row = i \<and> row \<in> set rows"
  by (auto simp: sess_get_def find_Some_iff)

lemma sess_get_None_iff: "sess_get key rows i = None \<longleftrightarrow> i \<notin> key ` set rows"
  by (auto simp: sess_get_def find_None_iff)

lemma sess_get_delete_where: "sess_get key (delete_where key i rows) i = None"
  by (auto simp: sess_get_None_iff delete_where_def)

lemma state_respond: "state (respond r w) = w"
  by (simp add: respond_def)

lemma state_flash_and: "state (flash_and m r w) = w"
  by (simp add: flash_and_def)

subsection \<open>Verification\<close>

lemma flashed_verified_ok: "flashed (verified_ok u w) = []"
  by (simp add: verified_ok_def respond_def Let_def split: query_result.splits)

lemma verified_ok_neq_invalid: "verified_ok u w \<noteq> invalid_or_expired w'"
proof
  assume "verified_ok u w = invalid_or_expired w'"
  then have "flashed (verified_ok u w) = flashed (invalid_or_expired w')" by simp
  then show False by (simp add: flashed_verified_ok invalid_or_expired_def flash_and_def)
qed

lemma users_verified_ok:
  "users (state (verified_ok u w)) = update_where u_id (u_id u) mark_verified (users w)"
  by (simp add: verified_ok_def respond_def Let_def split: query_result.splits)

lemma session_verified_ok:
  "session_user (state (verified_ok u w)) = Some (u_id u)"
  by (simp add: verified_ok_def respond_def Let_def split: query_result.splits)

text \<open>What \<^verbatim>\<open>verify\<close> does with a valid submission, by the rows its query finds.\<close>

lemma submit_code_OneRow:
  assumes "VerifyForm env \<lparr>vf_email = Some e, vf_code = Some c\<rparr>"
      and "one_or_none (filter (\<lambda>u. u_email u = lower (strip e)) (users w)) = OneRow u"
  shows "submit_code env e c now w =
           (if verify_code u = Some (strip c) \<and> \<not> expired u now then verified_ok u w
            else invalid_or_expired w)"
  using assms
  by (auto simp: submit_code_def verify_def post_def validate_on_submit_def expired_def
      utc_instant_def datetime_ge_def now_utc_def replace_tzinfo_utc_def Let_def
      split: option.splits)

lemma submit_code_NoRow:
  assumes "VerifyForm env \<lparr>vf_email = Some e, vf_code = Some c\<rparr>"
      and "one_or_none (filter (\<lambda>u. u_email u = lower (strip e)) (users w)) = NoRow"
  shows "submit_code env e c now w = invalid_or_expired w"
  using assms
  by (simp add: submit_code_def verify_def post_def validate_on_submit_def)

lemma account_state_verified_ok:
  assumes "account w e = Some u"
  shows "account (state (verified_ok u w)) e = Some (mark_verified u)"
proof -
  have "find (\<lambda>x. u_email x = lower (strip e)) (update_where u_id (u_id u) mark_verified (users w))
        = map_option (\<lambda>x. if u_id x = u_id u then mark_verified x else x)
            (find (\<lambda>x. u_email x = lower (strip e)) (users w))"
    by (rule find_update_where) (simp add: mark_verified_def)
  then show ?thesis using assms by (simp add: account_def users_verified_ok)
qed

lemma emails_state_verified_ok:
  "map u_email (users (state (verified_ok u w))) = map u_email (users w)"
  unfolding users_verified_ok by (rule map_update_where) (simp add: mark_verified_def)

lemma submit_code_account:
  assumes valid: "VerifyForm env \<lparr>vf_email = Some e, vf_code = Some c\<rparr>"
      and uniq: "distinct (map u_email (users w))"
  shows "submit_code env e c now w =
           (case account w e of
              None \<Rightarrow> invalid_or_expired w
            | Some u \<Rightarrow>
                if verify_code u = Some (strip c) \<and> \<not> expired u now then verified_ok u w
                else invalid_or_expired w)"
proof (cases "account w e")
  case None
  then have "one_or_none (filter (\<lambda>u. u_email u = lower (strip e)) (users w)) = NoRow"
    using one_or_none_find[OF uniq, of "lower (strip e)"] by (simp add: account_def)
  then show ?thesis using None submit_code_NoRow[OF valid] by simp
next
  case (Some u)
  then have "one_or_none (filter (\<lambda>u. u_email u = lower (strip e)) (users w)) = OneRow u"
    using one_or_none_find[OF uniq, of "lower (strip e)"] by (simp add: account_def)
  then show ?thesis using Some submit_code_OneRow[OF valid] by simp
qed

text \<open>Whatever the request: \<^verbatim>\<open>verify\<close> leaves the state as it was, or it accepts the
  stored, unexpired code of the one account of the address.\<close>

lemma verify_unchanged_or_accepted:
  "state (verify env req now w) = w
   \<or> (\<exists>u e c. vf_email (form req) = Some e \<and> vf_code (form req) = Some c
              \<and> filter (\<lambda>x. u_email x = lower (strip e)) (users w) = [u]
              \<and> verify_code u = Some (strip c) \<and> \<not> expired u now
              \<and> verify env req now w = verified_ok u w)"
proof (cases "request_method req = POST \<and> validate_on_submit req (VerifyForm env (form req))")
  case False
  then show ?thesis by (auto simp: verify_def state_respond)
next
  case True
  show ?thesis
  proof (cases "vf_email (form req)")
    case None
    then show ?thesis using True by (simp add: verify_def state_respond)
  next
    case e: (Some e)
    show ?thesis
    proof (cases "vf_code (form req)")
      case None
      then show ?thesis using True e by (simp add: verify_def state_respond)
    next
      case c: (Some c)
      show ?thesis
      proof (cases "one_or_none (filter (\<lambda>x. u_email x = lower (strip e)) (users w))")
        case NoRow
        then show ?thesis
          using True e c by (simp add: verify_def invalid_or_expired_def state_flash_and)
      next
        case MultipleResultsFound
        then show ?thesis
          using True e c by (simp add: verify_def state_respond)
      next
        case (OneRow u)
        then have f: "filter (\<lambda>x. u_email x = lower (strip e)) (users w) = [u]"
          by (rule one_or_none_OneRow)
        have "verify env req now w =
                (if verify_code u = Some (strip c) \<and> \<not> expired u now then verified_ok u w
                 else invalid_or_expired w)"
          using True e c OneRow
          by (auto simp: verify_def expired_def utc_instant_def datetime_ge_def now_utc_def
              replace_tzinfo_utc_def Let_def split: option.splits)
        then show ?thesis
          using e c f by (auto simp: invalid_or_expired_def state_flash_and)
      qed
    qed
  qed
qed

text \<open>
  C2. With the stored code submitted (and a form that validates, on the one account of the
  e-mail address), \<^verbatim>\<open>verify\<close> accepts exactly when the clock reading is at most the
  instant of the stored expiry, and refuses with the message of \<open>invalid_or_expired\<close>
  exactly when it is later; the instant of an expiry stored without zone is its reading
  taken as UTC. So a reading equal to the expiry is accepted and one microsecond later is
  refused.
\<close>

theorem verify_accepts_iff_not_expired:
  assumes "VerifyForm env \<lparr>vf_email = Some e, vf_code = Some c\<rparr>"
      and "filter (\<lambda>u. u_email u = lower (strip e)) (users w) = [u]"
      and "verify_code u = Some (strip c)"
      and "verify_expiry u = Some d"
  shows "(submit_code env e c now w = verified_ok u w \<longleftrightarrow> now \<le> utc_instant d)
       \<and> (submit_code env e c now w = invalid_or_expired w \<longleftrightarrow> utc_instant d < now)"
proof -
  have one: "one_or_none (filter (\<lambda>u. u_email u = lower (strip e)) (users w)) = OneRow u"
    using assms(2) by simp
  have eq: "submit_code env e c now w =
              (if now \<le> utc_instant d then verified_ok u w else invalid_or_expired w)"
    using submit_code_OneRow[OF assms(1) one, of now] assms(3,4)
    by (simp add: expired_def not_less)
  show ?thesis
  proof (cases "now \<le> utc_instant d")
    case True
    then show ?thesis using eq by (simp add: verified_ok_neq_invalid)
  next
    case False
    then show ?thesis using eq verified_ok_neq_invalid[of u w w] by (auto simp: not_le)
  qed
qed

text \<open>The theorem at the pending code of \<open>pending_world\<close>: accepted at the expiry,
  refused one microsecond after it.\<close>

theorem verify_accepts_iff_not_expired_witness:
  "VerifyForm sample_env \<lparr>vf_email = Some ''a@x.com'', vf_code = Some ''000007''\<rparr>
   \<and> filter (\<lambda>u. u_email u = lower (strip ''a@x.com'')) (users pending_world) = [pending]
   \<and> verify_code pending = Some (strip ''000007'')
   \<and> verify_expiry pending = Some \<lparr>wall = 600000001, tzinfo = None\<rparr>
   \<and> submit_code sample_env ''a@x.com'' ''000007'' 600000001 pending_world
       = verified_ok pending pending_world
   \<and> submit_code sample_env ''a@x.com'' ''000007'' 600000002 pending_world
       = invalid_or_expired pending_world"
proof -
  have h1: "VerifyForm sample_env \<lparr>vf_email = Some ''a@x.com'', vf_code = Some ''000007''\<rparr>"
    by code_simp
  have h2: "filter (\<lambda>u. u_email u = lower (strip ''a@x.com'')) (users pending_world) = [pending]"
    by code_simp
  have h3: "verify_code pending = Some (strip ''000007'')"
    by code_simp
  have h4: "verify_expiry pending = Some \<lparr>wall = 600000001, tzinfo = None\<rparr>"
    by (simp add: pending_def)
  show ?thesis
    using h1 h2 h3 h4
      verify_accepts_iff_not_expired[OF h1 h2 h3 h4, of 600000001]
      verify_accepts_iff_not_expired[OF h1 h2 h3 h4, of 600000002]
    by (simp add: utc_instant_def)
qed

text \<open>
  C3. First, for every request: \<^verbatim>\<open>verify\<close> either leaves the whole state as it was
  or accepts a stored, unexpired code. Second, on a valid submission in a table with
  unique e-mail addresses: when there is no account, the code differs or the code has
  expired, the reply is \<open>invalid_or_expired\<close>, whose state is the state before;
  otherwise the account gets \<open>verified = 1\<close> and loses code and expiry, and the same
  submission at any later time is refused.
\<close>

theorem verify_atomic_single_use:
  "(state (verify env req now w) = w
    \<or> (\<exists>u e c. vf_email (form req) = Some e \<and> vf_code (form req) = Some c
               \<and> filter (\<lambda>x. u_email x = lower (strip e)) (users w) = [u]
               \<and> verify_code u = Some (strip c) \<and> \<not> expired u now
               \<and> verify env req now w = verified_ok u w))
   \<and> (VerifyForm env \<lparr>vf_email = Some e, vf_code = Some c\<rparr>
        \<and> distinct (map u_email (users w)) \<longrightarrow>
       (case account w e of
          None \<Rightarrow> submit_code env e c now w = invalid_or_expired w
        | Some u \<Rightarrow>
            if verify_code u = Some (strip c) \<and> \<not> expired u now then
              submit_code env e c now w = verified_ok u w
              \<and> account (state (verified_ok u w)) e =
                  Some (u\<lparr>verified := 1, verify_code := None, verify_expiry := None\<rparr>)
              \<and> (\<forall>t. submit_code env e c t (state (verified_ok u w)) =
                       invalid_or_expired (state (verified_ok u w)))
            else submit_code env e c now w = invalid_or_expired w))
   \<and> state (invalid_or_expired w) = w"
proof -
  have st: "state (invalid_or_expired w) = w"
    by (simp add: invalid_or_expired_def flash_and_def)
  have main: "(case account w e of
          None \<Rightarrow> submit_code env e c now w = invalid_or_expired w
        | Some u \<Rightarrow>
            if verify_code u = Some (strip c) \<and> \<not> expired u now then
              submit_code env e c now w = verified_ok u w
              \<and> account (state (verified_ok u w)) e =
                  Some (u\<lparr>verified := 1, verify_code := None, verify_expiry := None\<rparr>)
              \<and> (\<forall>t. submit_code env e c t (state (verified_ok u w)) =
                       invalid_or_expired (state (verified_ok u w)))
            else submit_code env e c now w = invalid_or_expired w)"
    if valid: "VerifyForm env \<lparr>vf_email = Some e, vf_code = Some c\<rparr>"
      and uniq: "distinct (map u_email (users w))"
  proof -
    have again: "submit_code env e c t (state (verified_ok u w)) =
                   invalid_or_expired (state (verified_ok u w))"
      if "account w e = Some u" for u t
    proof -
      have "distinct (map u_email (users (state (verified_ok u w))))"
        using uniq by (simp add: emails_state_verified_ok)
      from submit_code_account[OF valid this, of t] account_state_verified_ok[OF that]
      show ?thesis by (simp add: mark_verified_def)
    qed
    show ?thesis
      using submit_code_account[OF valid uniq, of now] again account_state_verified_ok
      by (auto simp: mark_verified_def split: option.splits)
  qed
  show ?thesis
    using verify_unchanged_or_accepted[of env req now w] st main by blast
qed

text \<open>The theorem at the pending code of \<open>pending_world\<close>, submitted twice, and at a
  wrong code.\<close>

theorem verify_atomic_single_use_witness:
  "VerifyForm sample_env \<lparr>vf_email = Some ''a@x.com'', vf_code = Some ''000007''\<rparr>
   \<and> distinct (map u_email (users pending_world))
   \<and> account pending_world ''a@x.com'' = Some pending
   \<and> verify_code pending = Some (strip ''000007'') \<and> \<not> expired pending 600000001
   \<and> submit_code sample_env ''a@x.com'' ''000007'' 600000001 pending_world
       = verified_ok pending pending_world
   \<and> account (state (verified_ok pending pending_world)) ''a@x.com''
       = Some (pending\<lparr>verified := 1, verify_code := None, verify_expiry := None\<rparr>)
   \<and> submit_code sample_env ''a@x.com'' ''000007'' 600000001
         (state (verified_ok pending pending_world))
       = invalid_or_expired (state (verified_ok pending pending_world))
   \<and> submit_code sample_env ''a@x.com'' ''000008'' 600000001 pending_world
       = invalid_or_expired pending_world"
proof -
  have h1: "VerifyForm sample_env \<lparr>vf_email = Some ''a@x.com'', vf_code = Some ''000007''\<rparr>"
    by code_simp
  have h1': "VerifyForm sample_env \<lparr>vf_email = Some ''a@x.com'', vf_code = Some ''000008''\<rparr>"
    by code_simp
  have h2: "distinct (map u_email (users pending_world))"
    by code_simp
  have a: "account pending_world ''a@x.com'' = Some pending"
    by code_simp
  have c: "verify_code pending = Some (strip ''000007'')"
    by code_simp
  have c': "verify_code pending \<noteq> Some (strip ''000008'')"
    by code_simp
  have x: "\<not> expired pending 600000001"
    by code_simp
  show ?thesis
    using h1 h1' h2 a c c' x
      verify_atomic_single_use[of sample_env
        "post \<lparr>vf_email = Some ''a@x.com'', vf_code = Some ''000007''\<rparr>"
        600000001 pending_world "''a@x.com''" "''000007''"]
      verify_atomic_single_use[of sample_env
        "post \<lparr>vf_email = Some ''a@x.com'', vf_code = Some ''000008''\<rparr>"
        600000001 pending_world "''a@x.com''" "''000008''"]
    by simp
qed

subsection \<open>Sign-in\<close>

lemma request_code_users:
  assumes valid: "SigninForm env \<lparr>sf_email = Some e\<rparr>"
      and uniq: "distinct (map u_email (users w))"
  shows "request_code env e t r w =
           respond (Redirect ''verify'' [(''email'', lower (strip e))])
             (w\<lparr>users :=
                  (case account w e of
                     Some u \<Rightarrow> update_where u_id (u_id u) (issue_code env t r) (users w)
                   | None \<Rightarrow>
                       update_where u_id (next_id (map u_id (users w))) (issue_code env t r)
                         (users w @ [new_user (next_id (map u_id (users w))) (lower (strip e))])),
                console := console w @ [''[DEV] Verification code: '' @ format_06d r]\<rparr>)"
  using valid one_or_none_find[OF uniq, of "lower (strip e)"]
  by (auto simp: request_code_def signin_def post_def validate_on_submit_def account_def Let_def
      split: option.splits)

lemma issue_code_email: "u_email (issue_code env t r u) = u_email u"
  by (simp add: issue_code_def)

lemma request_code_account:
  assumes valid: "SigninForm env \<lparr>sf_email = Some e\<rparr>"
      and uniq: "distinct (map u_email (users w))"
  shows "account (state (request_code env e t r w)) e =
           Some (issue_code env t r
                   (case account w e of
                      Some u \<Rightarrow> u
                    | None \<Rightarrow> new_user (next_id (map u_id (users w))) (lower (strip e))))"
proof (cases "account w e")
  case None
  then have "find (\<lambda>u. u_email u = lower (strip e))
               (users w @ [new_user (next_id (map u_id (users w))) (lower (strip e))])
             = Some (new_user (next_id (map u_id (users w))) (lower (strip e)))"
    by (simp add: account_def find_None_append new_user_def)
  then show ?thesis
    using None
    by (simp add: request_code_users[OF valid uniq] respond_def account_def
        find_update_where[where f=u_email, OF issue_code_email] new_user_def)
next
  case (Some u)
  then show ?thesis
    by (simp add: request_code_users[OF valid uniq] respond_def account_def
        find_update_where[where f=u_email, OF issue_code_email])
qed






subsection \<open>Generation\<close>

text \<open>
  C4. When the account has no profile row, or its one profile row has a full name that is
  empty after trimming (whatever its other fields hold), \<^verbatim>\<open>tailor\<close> replies with the
  redirect to the profile page and the message that the profile is incomplete, for every
  request, and leaves the whole state as it was: no call of the Renderer is recorded and
  no row is added.
\<close>

theorem tailor_profile_incomplete:
  assumes "filter (\<lambda>p. p_user_id p = u_id cu) (profiles w) = []
           \<or> (\<exists>prof. filter (\<lambda>p. p_user_id p = u_id cu) (profiles w) = [prof]
                       \<and> strip (full_name prof) = [])"
  shows "tailor env cu req now w =
           \<lparr>flashed = [''Please complete your profile (full name is required).''],
            response = Redirect ''profile'' [],
            state = w\<rparr>"
  using assms
  by (auto simp: tailor_def profile_incomplete_def flash_and_def)

text \<open>The theorem at a profile whose name is two spaces and whose other fields are
  filled in.\<close>

theorem tailor_profile_incomplete_witness:
  "(\<exists>prof. filter (\<lambda>p. p_user_id p = u_id jane)
              (profiles (jane_world\<lparr>profiles := [jane_profile\<lparr>full_name := ''  ''\<rparr>]\<rparr>)) = [prof]
           \<and> strip (full_name prof) = [])
   \<and> tailor sample_env jane (post \<lparr>tf_url = Some ''https://boards.example.com/job/42''\<rparr>) 0
        (jane_world\<lparr>profiles := [jane_profile\<lparr>full_name := ''  ''\<rparr>]\<rparr>)
       = \<lparr>flashed = [''Please complete your profile (full name is required).''],
          response = Redirect ''profile'' [],
          state = jane_world\<lparr>profiles := [jane_profile\<lparr>full_name := ''  ''\<rparr>]\<rparr>\<rparr>"
proof -
  have f: "filter (\<lambda>p. p_user_id p = u_id jane)
             (profiles (jane_world\<lparr>profiles := [jane_profile\<lparr>full_name := ''  ''\<rparr>]\<rparr>))
           = [jane_profile\<lparr>full_name := ''  ''\<rparr>]"
    by (simp add: jane_def jane_profile_def)
  have s: "strip (full_name (jane_profile\<lparr>full_name := ''  ''\<rparr>)) = []"
    by code_simp
  have h: "\<exists>prof. filter (\<lambda>p. p_user_id p = u_id jane)
              (profiles (jane_world\<lparr>profiles := [jane_profile\<lparr>full_name := ''  ''\<rparr>]\<rparr>)) = [prof]
           \<and> strip (full_name prof) = []"
    using f s by blast
  show ?thesis
    using h tailor_profile_incomplete[OF disjI2, OF h] by blast
qed

text \<open>
  C5. When \<^verbatim>\<open>tailor\<close> reaches the Renderer (complete profile, valid submission) and
  the Renderer raises on the snapshot and the trimmed URL, the reply is the page
  \<^verbatim>\<open>tailor.html\<close> with the message that generation failed; the state differs from the
  one before only by the recorded call: the rows of \<open>resumes\<close> and the storage are
  unchanged.
\<close>

theorem tailor_render_failed:
  assumes "filter (\<lambda>p. p_user_id p = u_id cu) (profiles w) = [prof]"
      and "strip (full_name prof) \<noteq> []"
      and "request_method req = POST" and "csrf_ok req" and "TailorForm (form req)"
      and "url = strip (or_empty (tf_url (form req)))"
      and "generate_both env (snapshot env cu prof) url = None"
  shows "tailor env cu req now w =
           \<lparr>flashed = [''Failed to generate resume. Check server dependencies (WeasyPrint).''],
            response = RenderTemplate ''tailor.html'',
            state = w\<lparr>renderer_calls := renderer_calls w @ [(snapshot env cu prof, url)]\<rparr>\<rparr>
         \<and> resumes (state (tailor env cu req now w)) = resumes w
         \<and> storage (state (tailor env cu req now w)) = storage w"
proof -
  have "url \<noteq> []"
    using assms(5,6) by (auto simp: TailorForm_def DataRequired_def or_empty_def split: option.splits)
  then show ?thesis
    using assms
    by (simp add: tailor_def render_failed_def flash_and_def validate_on_submit_def Let_def)
qed

text \<open>The theorem at the Renderer of \<open>sample_env\<close>, which always raises.\<close>

theorem tailor_render_failed_witness:
  "filter (\<lambda>p. p_user_id p = u_id jane) (profiles jane_world) = [jane_profile]
   \<and> strip (full_name jane_profile) \<noteq> []
   \<and> TailorForm \<lparr>tf_url = Some ''https://boards.example.com/job/42''\<rparr>
   \<and> generate_both sample_env (snapshot sample_env jane jane_profile)
         ''https://boards.example.com/job/42'' = None
   \<and> resumes (state (tailor sample_env jane
          (post \<lparr>tf_url = Some ''https://boards.example.com/job/42''\<rparr>) 0 jane_world))
       = resumes jane_world
   \<and> storage (state (tailor sample_env jane
          (post \<lparr>tf_url = Some ''https://boards.example.com/job/42''\<rparr>) 0 jane_world))
       = storage jane_world"
proof -
  let ?req = "post \<lparr>tf_url = Some ''https://boards.example.com/job/42''\<rparr>"
  have h1: "filter (\<lambda>p. p_user_id p = u_id jane) (profiles jane_world) = [jane_profile]"
    by (simp add: jane_def jane_profile_def jane_world_def)
  have h2: "strip (full_name jane_profile) \<noteq> []"
    by code_simp
  have h3: "request_method ?req = POST" and h4: "csrf_ok ?req"
    by (simp_all add: post_def)
  have h5': "TailorForm \<lparr>tf_url = Some ''https://boards.example.com/job/42''\<rparr>"
    by code_simp
  then have h5: "TailorForm (form ?req)"
    by (simp add: post_def)
  have h6: "''https://boards.example.com/job/42'' = strip (or_empty (tf_url (form ?req)))"
    by code_simp
  have h7: "generate_both sample_env (snapshot sample_env jane jane_profile)
              ''https://boards.example.com/job/42'' = None"
    by (simp add: sample_env_def)
  show ?thesis
    using h1 h2 h5' h7 tailor_render_failed[OF h1 h2 h3 h4 h5 h6 h7, of 0] by simp
qed

subsection \<open>Deletion and download\<close>

text \<open>
  C6. For every behaviour of the operating-system calls (files missing, removals that
  raise, a listing that raises), \<^verbatim>\<open>delete_resume\<close> on a submission with a valid token
  for a row the current user owns replies with the redirect and the message
  \<^verbatim>\<open>Deleted resume\<close>, and the table afterwards is the table before without the rows of
  that id: no row with the id is left.
\<close>

theorem delete_resume_removes_row:
  assumes "request_method req = POST" and "csrf_ok req"
      and "sess_get r_id (resumes w) i = Some row"
      and "r_user_id row = u_id cu"
  shows "flashed (delete_resume env cu req i w) = [''Deleted resume'']
       \<and> response (delete_resume env cu req i w) = Redirect ''tailor'' []
       \<and> resumes (state (delete_resume env cu req i w)) = filter (\<lambda>r. r_id r \<noteq> i) (resumes w)
       \<and> sess_get r_id (resumes (state (delete_resume env cu req i w))) i = None"
proof -
  have "r_id row = i" using assms(3) by (simp add: sess_get_key)
  then show ?thesis
    using assms sess_get_delete_where[of r_id i "resumes w"]
    by (simp add: delete_resume_def validate_on_submit_def flash_and_def Let_def delete_where_def)
qed

text \<open>The theorem in a world where the PDF file is already gone, with an operating system
  whose \<^verbatim>\<open>os.remove\<close> and \<^verbatim>\<open>os.listdir\<close> always raise.\<close>

theorem delete_resume_removes_row_witness:
  "request_method (post ()) = POST \<and> csrf_ok (post ())
   \<and> sess_get r_id (resumes jane_world) 7 = Some jane_resume
   \<and> r_user_id jane_resume = u_id jane
   \<and> resumes (state (delete_resume
         (sample_env\<lparr>os_remove := (\<lambda>fs p. (False, fs)), os_listdir := (\<lambda>fs d. None)\<rparr>)
         jane (post ()) 7 jane_world)) = []"
proof -
  have h1: "request_method (post ()) = POST" and h2: "csrf_ok (post ())"
    by (simp_all add: post_def)
  have h3: "sess_get r_id (resumes jane_world) 7 = Some jane_resume"
    by (simp add: sess_get_def jane_world_def jane_resume_def)
  have h4: "r_user_id jane_resume = u_id jane"
    by (simp add: jane_resume_def jane_def)
  have "filter (\<lambda>r. r_id r \<noteq> 7) (resumes jane_world) = []"
    by (simp add: jane_world_def jane_resume_def)
  then show ?thesis
    using h1 h2 h3 h4
      delete_resume_removes_row[OF h1 h2 h3 h4,
        of "sample_env\<lparr>os_remove := (\<lambda>fs p. (False, fs)), os_listdir := (\<lambda>fs d. None)\<rparr>"]
    by simp
qed



subsection \<open>Profile\<close>

text \<open>What a save does, on both paths: the one profile row of the user has no github
  value afterwards; a first save stores the trimmed link of the form; a later save never
  looks at the link of the form.\<close>

lemma prefill_ignores_web:
  "prefill env cu prof (f\<lparr>pf_web := x\<rparr>) = prefill env cu prof f"
  by (simp add: prefill_def)

lemma profile_update_ignores_web:
  assumes "filter (\<lambda>p. p_user_id p = u_id cu) (profiles w) = [prof]"
  shows "profile env cu (req\<lparr>form := (form req)\<lparr>pf_web := x\<rparr>\<rparr>) w = profile env cu req w"
  using assms by (simp add: profile_def prefill_ignores_web validate_on_submit_def)

lemma profile_saved_clears_github:
  assumes "flashed (profile env cu req w) = [''Saved'']"
  shows "\<exists>p. filter (\<lambda>p. p_user_id p = u_id cu) (profiles (state (profile env cu req w))) = [p]
             \<and> github p = None"
proof (cases "one_or_none (filter (\<lambda>p. p_user_id p = u_id cu) (profiles w))")
  case NoRow
  then have e: "filter (\<lambda>p. p_user_id p = u_id cu) (profiles w) = []"
    by (cases "filter (\<lambda>p. p_user_id p = u_id cu) (profiles w)" rule: one_or_none.cases) auto
  show ?thesis
    using assms NoRow e
    by (auto simp: profile_def respond_def flash_and_def assign_data_def blank_profile_def Let_def
        split: if_splits option.splits)
next
  case (OneRow prof)
  then have e: "filter (\<lambda>p. p_user_id p = u_id cu) (profiles w) = [prof]"
    by (cases "filter (\<lambda>p. p_user_id p = u_id cu) (profiles w)" rule: one_or_none.cases) auto
  have uid: "p_user_id (assign_data env n f p) = p_user_id p" for n f p
    by (simp add: assign_data_def)
  have "filter (\<lambda>p. p_user_id p = u_id cu) (update_where p_id (p_id prof) (assign_data env n f) (profiles w))
        = map (\<lambda>p. if p_id p = p_id prof then assign_data env n f p else p)
            (filter (\<lambda>p. p_user_id p = u_id cu) (profiles w))" for n f
    by (simp add: update_where_def filter_map comp_def uid if_distrib[of p_user_id] cong: if_cong)
  then show ?thesis
    using assms OneRow e
    by (auto simp: profile_def respond_def flash_and_def assign_data_def Let_def
        split: if_splits option.splits)
next
  case MultipleResultsFound
  then show ?thesis using assms by (simp add: profile_def respond_def)
qed

lemma profile_create_stores_web:
  assumes "filter (\<lambda>p. p_user_id p = u_id cu) (profiles w) = []"
      and "flashed (profile env cu req w) = [''Saved'']"
  shows "\<exists>p. filter (\<lambda>p. p_user_id p = u_id cu) (profiles (state (profile env cu req w))) = [p]
             \<and> linkedin p = Some (strip (or_empty (pf_web (form req))))"
  using assms
  by (auto simp: profile_def respond_def flash_and_def assign_data_def blank_profile_def Let_def
      split: if_splits option.splits)

text \<open>
  C9 at an update. Jane has a profile whose link is \<^verbatim>\<open>old.example/jane\<close> and submits
  the form with the link \<^verbatim>\<open>new.example/jane\<close>. The assignments under
  \<^verbatim>\<open>if prof:\<close> have replaced the submitted data by the stored values before the form is
  validated and read, so the save succeeds and the stored link is still the old one, not
  the submitted one.
\<close>

theorem profile_update_keeps_stored_link:
  "flashed (profile sample_env jane
      (post \<lparr>pf_full_name = Some ''Jane Doe'', pf_city = Some ''Oslo'',
             pf_email = Some ''jane@x.com'', pf_phone = Some [],
             pf_web = Some ''new.example/jane'', pf_about = Some [],
             pf_gemini_api_key = Some []\<rparr>) jane_world) = [''Saved'']
   \<and> map linkedin (profiles (state (profile sample_env jane
      (post \<lparr>pf_full_name = Some ''Jane Doe'', pf_city = Some ''Oslo'',
             pf_email = Some ''jane@x.com'', pf_phone = Some [],
             pf_web = Some ''new.example/jane'', pf_about = Some [],
             pf_gemini_api_key = Some []\<rparr>) jane_world))) = [Some ''old.example/jane'']
   \<and> map linkedin (profiles (state (profile sample_env jane
      (post \<lparr>pf_full_name = Some ''Jane Doe'', pf_city = Some ''Oslo'',
             pf_email = Some ''jane@x.com'', pf_phone = Some [],
             pf_web = Some ''new.example/jane'', pf_about = Some [],
             pf_gemini_api_key = Some []\<rparr>) jane_world)))
       \<noteq> [Some (strip ''new.example/jane'')]"
  by code_simp

subsection \<open>Every operation\<close>

text \<open>The table of users after any call of a route: as before, or with a code issued on
  the rows of one id (after a new unverified row was added or not), or with the rows of
  one id marked verified.\<close>

lemma users_signin:
  "users (state (signin env req t r w)) = users w
   \<or> (\<exists>i. users (state (signin env req t r w)) = update_where u_id i (issue_code env t r) (users w))
   \<or> (\<exists>i j em. users (state (signin env req t r w)) =
          update_where u_id i (issue_code env t r) (users w @ [new_user j em]))"
  by (auto simp: signin_def state_respond Let_def split: option.splits query_result.splits)

lemma users_verify:
  "users (state (verify env req t w)) = users w
   \<or> (\<exists>i. users (state (verify env req t w)) = update_where u_id i mark_verified (users w))"
  by (auto simp: verify_def state_respond invalid_or_expired_def state_flash_and
      users_verified_ok Let_def split: option.splits query_result.splits bool.splits)

lemma users_profile: "users (state (profile env cu req w)) = users w"
  by (auto simp: profile_def state_respond state_flash_and Let_def
      split: option.splits query_result.splits)

lemma users_store_result: "users (state (store_result env cu url now res w)) = users w"
  by (auto simp: store_result_def state_respond Let_def split: prod.splits option.splits bool.splits)

lemma users_tailor: "users (state (tailor env cu req now w)) = users w"
  by (auto simp: tailor_def state_respond state_flash_and profile_incomplete_def render_failed_def
      users_store_result Let_def split: option.splits query_result.splits)

lemma users_result: "users (state (result env cu i w)) = users w"
  by (auto simp: result_def state_respond split: option.splits)

lemma users_delete_resume: "users (state (delete_resume env cu req i w)) = users w"
  by (auto simp: delete_resume_def state_respond state_flash_and Let_def split: option.splits)

lemma users_download: "users (state (download cu i kind w)) = users w"
  by (auto simp: download_def state_respond split: option.splits)

lemma users_login_required:
  "(\<And>cu. users (state (view cu w)) = users w) \<Longrightarrow> users (state (login_required view w)) = users w"
  by (auto simp: login_required_def state_respond split: option.splits)

lemma users_handle:
  "users (state (handle env c w)) = users w
   \<or> (\<exists>i t r. users (state (handle env c w)) = update_where u_id i (issue_code env t r) (users w))
   \<or> (\<exists>i t r j em. users (state (handle env c w)) =
          update_where u_id i (issue_code env t r) (users w @ [new_user j em]))
   \<or> (\<exists>i. users (state (handle env c w)) = update_where u_id i mark_verified (users w))"
proof (cases c)
  case (Signin req t r)
  then have h: "handle env c w = signin env req t r w" by simp
  show ?thesis
    unfolding h using users_signin[of env req t r w] by blast
next
  case (Verify req t)
  then have h: "handle env c w = verify env req t w" by simp
  show ?thesis
    unfolding h using users_verify[of env req t w] by blast
qed (simp_all add: index_def logout_def state_respond users_login_required users_profile
      users_tailor users_result users_delete_resume users_download)

lemma paired_issue_code: "paired (issue_code env t r u)"
  by (simp add: paired_def issue_code_def)

lemma paired_mark_verified: "paired (mark_verified u)"
  by (simp add: paired_def mark_verified_def)

lemma paired_new_user: "paired (new_user i em)"
  by (simp add: paired_def new_user_def)

lemma codes_paired_handle:
  assumes "codes_paired w"
  shows "codes_paired (state (handle env c w))"
proof -
  have "list_all paired (users w)" using assms by (simp add: codes_paired_def)
  then have "list_all paired (update_where u_id i (issue_code env t r) (users w))"
    and "list_all paired (update_where u_id i (issue_code env t r) (users w @ [new_user j em]))"
    and "list_all paired (update_where u_id i mark_verified (users w))" for i t r j em
    by (simp_all add: list_all_update_where paired_issue_code paired_mark_verified paired_new_user)
  then show ?thesis
    using users_handle[of env c w] assms by (auto simp: codes_paired_def)
qed

lemma codes_paired_run:
  "codes_paired w \<Longrightarrow> codes_paired (run env cs w)"
  by (induction cs arbitrary: w) (simp_all add: codes_paired_handle)

text \<open>
  C8. If in every account code and expiry are both set or both null, then they are so
  after every call of every route and after every sequence of calls; the account that
  \<^verbatim>\<open>request_code\<close> issued a code for has both set, and the account whose code
  \<^verbatim>\<open>verify\<close> accepted has both null.
\<close>

theorem code_and_expiry_paired:
  assumes "codes_paired w"
  shows "codes_paired (state (handle env c w))
       \<and> codes_paired (run env cs w)
       \<and> (SigninForm env \<lparr>sf_email = Some e\<rparr> \<and> distinct (map u_email (users w)) \<longrightarrow>
            (\<exists>u. account (state (request_code env e t r w)) e = Some u
                  \<and> verify_code u \<noteq> None \<and> verify_expiry u \<noteq> None))
       \<and> (account w e = Some u \<longrightarrow>
            (\<exists>u'. account (state (verified_ok u w)) e = Some u'
                   \<and> verify_code u' = None \<and> verify_expiry u' = None))"
proof -
  have issue: "\<exists>u. account (state (request_code env e t r w)) e = Some u
                  \<and> verify_code u \<noteq> None \<and> verify_expiry u \<noteq> None"
    if "SigninForm env \<lparr>sf_email = Some e\<rparr>" "distinct (map u_email (users w))"
    using request_code_account[OF that, of t r] by (simp add: issue_code_def)
  have clear: "\<exists>u'. account (state (verified_ok u w)) e = Some u'
                   \<and> verify_code u' = None \<and> verify_expiry u' = None"
    if "account w e = Some u"
    using account_state_verified_ok[OF that] by (simp add: mark_verified_def)
  show ?thesis
    using assms issue clear by (simp add: codes_paired_handle codes_paired_run)
qed

text \<open>The theorem from the pending code of \<open>pending_world\<close>: a new code is issued and
  accepted, then a second account asks for a code.\<close>

theorem code_and_expiry_paired_witness:
  "codes_paired pending_world
   \<and> codes_paired (state (handle sample_env
         (Verify (post \<lparr>vf_email = Some ''a@x.com'', vf_code = Some ''000007''\<rparr>) 600000001)
         pending_world))
   \<and> codes_paired (run sample_env
         [Signin (post \<lparr>sf_email = Some ''a@x.com''\<rparr>) 5 42,
          Verify (post \<lparr>vf_email = Some ''a@x.com'', vf_code = Some ''000042''\<rparr>) 6,
          Signin (post \<lparr>sf_email = Some ''b@x.com''\<rparr>) 7 1]
         pending_world)
   \<and> map (\<lambda>u. (verify_code u, verify_expiry u))
         (users (run sample_env
           [Signin (post \<lparr>sf_email = Some ''a@x.com''\<rparr>) 5 42,
            Verify (post \<lparr>vf_email = Some ''a@x.com'', vf_code = Some ''000042''\<rparr>) 6,
            Signin (post \<lparr>sf_email = Some ''b@x.com''\<rparr>) 7 1]
           pending_world))
       = [(None, None), (Some ''000001'', Some \<lparr>wall = 600000007, tzinfo = None\<rparr>)]
   \<and> SigninForm sample_env \<lparr>sf_email = Some ''a@x.com''\<rparr>
   \<and> distinct (map u_email (users pending_world))
   \<and> account pending_world ''a@x.com'' = Some pending
   \<and> (\<exists>u. account (state (request_code sample_env ''a@x.com'' 5 42 pending_world)) ''a@x.com''
             = Some u \<and> verify_code u \<noteq> None \<and> verify_expiry u \<noteq> None)
   \<and> (\<exists>u'. account (state (verified_ok pending pending_world)) ''a@x.com'' = Some u'
              \<and> verify_code u' = None \<and> verify_expiry u' = None)"
proof -
  have h: "codes_paired pending_world"
    by code_simp
  have v: "map (\<lambda>u. (verify_code u, verify_expiry u))
         (users (run sample_env
           [Signin (post \<lparr>sf_email = Some ''a@x.com''\<rparr>) 5 42,
            Verify (post \<lparr>vf_email = Some ''a@x.com'', vf_code = Some ''000042''\<rparr>) 6,
            Signin (post \<lparr>sf_email = Some ''b@x.com''\<rparr>) 7 1]
           pending_world))
       = [(None, None), (Some ''000001'', Some \<lparr>wall = 600000007, tzinfo = None\<rparr>)]"
    by code_simp
  have s: "SigninForm sample_env \<lparr>sf_email = Some ''a@x.com''\<rparr>"
    by code_simp
  have d: "distinct (map u_email (users pending_world))"
    by code_simp
  have a: "account pending_world ''a@x.com'' = Some pending"
    by code_simp
  show ?thesis
    using h v s d a
      code_and_expiry_paired[OF h, of sample_env
        "Verify (post \<lparr>vf_email = Some ''a@x.com'', vf_code = Some ''000007''\<rparr>) 600000001"
        "[Signin (post \<lparr>sf_email = Some ''a@x.com''\<rparr>) 5 42,
          Verify (post \<lparr>vf_email = Some ''a@x.com'', vf_code = Some ''000042''\<rparr>) 6,
          Signin (post \<lparr>sf_email = Some ''b@x.com''\<rparr>) 7 1]"
        "''a@x.com''" 5 42 pending]
    by simp
qed

lemma keeps_verified_refl: "keeps_verified us us"
  by (simp add: keeps_verified_def list_all2_same)

lemma keeps_verified_trans:
  assumes "keeps_verified a b" and "keeps_verified b c"
  shows "keeps_verified a c"
  using assms
  by (auto simp: keeps_verified_def list_all2_conv_all_nth)

lemma keeps_verified_update:
  assumes "\<And>x. u_id (f x) = u_id x" and "\<And>x. u_email (f x) = u_email x"
      and "\<And>x. verified x = 1 \<Longrightarrow> verified (f x) = 1"
  shows "keeps_verified us (update_where key i f (us @ extra))"
  using assms
  by (auto simp: keeps_verified_def list_all2_conv_all_nth update_where_def nth_append)

lemma keeps_verified_handle: "keeps_verified (users w) (users (state (handle env c w)))"
proof -
  have a: "keeps_verified (users w) (update_where u_id i (issue_code env t r) (users w @ extra))"
    for i t r extra
    by (rule keeps_verified_update) (simp_all add: issue_code_def)
  have b: "keeps_verified (users w) (update_where u_id i mark_verified (users w @ []))" for i
    by (rule keeps_verified_update) (simp_all add: mark_verified_def)
  show ?thesis
    using users_handle[of env c w] a[of _ _ _ "[]"] a b keeps_verified_refl[of "users w"]
    by auto
qed

lemma keeps_verified_run: "keeps_verified (users w) (users (run env cs w))"
proof (induction cs arbitrary: w)
  case Nil
  show ?case by (simp add: keeps_verified_refl)
next
  case (Cons c cs)
  show ?case
    using keeps_verified_trans[OF keeps_verified_handle[of w env c] Cons[of "state (handle env c w)"]]
    by simp
qed

text \<open>
  C10. After every call of every route, and after every sequence of calls, each account is
  still there and an account that was verified is verified. In particular
  \<^verbatim>\<open>request_code\<close> for an existing account (valid address, unique addresses in the
  table) changes its code and expiry to the fresh ones and nothing else, so its verified
  flag is as before.
\<close>

theorem verified_never_reset:
  "keeps_verified (users w) (users (state (handle env c w)))
   \<and> keeps_verified (users w) (users (run env cs w))
   \<and> (SigninForm env \<lparr>sf_email = Some e\<rparr> \<and> distinct (map u_email (users w))
        \<and> account w e = Some u \<longrightarrow>
      account (state (request_code env e t r w)) e =
        Some (u\<lparr>verify_code := Some (format_06d r),
               verify_expiry :=
                 Some (persisted (db_backend env) (add_timedelta (now_utc t) (minutes 10)))\<rparr>))"
proof -
  have "account (state (request_code env e t r w)) e = Some (issue_code env t r u)"
    if "SigninForm env \<lparr>sf_email = Some e\<rparr>" "distinct (map u_email (users w))"
       "account w e = Some u"
    using request_code_account[OF that(1,2), of t r] that(3) by simp
  then show ?thesis
    by (simp add: keeps_verified_handle keeps_verified_run issue_code_def)
qed

text \<open>The theorem at the verified account of \<open>jane_world\<close>, which asks for a code again
  and signs out.\<close>

theorem verified_never_reset_witness:
  "verified jane = 1
   \<and> keeps_verified (users jane_world)
        (users (run sample_env
           [Signin (post \<lparr>sf_email = Some ''jane@x.com''\<rparr>) 5 42, Logout] jane_world))
   \<and> map verified (users (run sample_env
           [Signin (post \<lparr>sf_email = Some ''jane@x.com''\<rparr>) 5 42, Logout] jane_world)) = [1]
   \<and> SigninForm sample_env \<lparr>sf_email = Some ''jane@x.com''\<rparr>
   \<and> distinct (map u_email (users jane_world))
   \<and> account jane_world ''jane@x.com'' = Some jane
   \<and> account (state (request_code sample_env ''jane@x.com'' 5 42 jane_world)) ''jane@x.com''
       = Some (jane\<lparr>verify_code := Some ''000042'',
                    verify_expiry := Some \<lparr>wall = 600000005, tzinfo = None\<rparr>\<rparr>)"
proof -
  have v: "verified jane = 1"
    by (simp add: jane_def)
  have m: "map verified (users (run sample_env
           [Signin (post \<lparr>sf_email = Some ''jane@x.com''\<rparr>) 5 42, Logout] jane_world)) = [1]"
    by code_simp
  have h1: "SigninForm sample_env \<lparr>sf_email = Some ''jane@x.com''\<rparr>"
    by code_simp
  have h2: "distinct (map u_email (users jane_world))"
    by code_simp
  have h3: "account jane_world ''jane@x.com'' = Some jane"
    by code_simp
  have c: "format_06d 42 = ''000042''"
    by code_simp
  have d: "persisted (db_backend sample_env) (add_timedelta (now_utc 5) (minutes 10))
           = \<lparr>wall = 600000005, tzinfo = None\<rparr>"
    by code_simp
  show ?thesis
    using v m h1 h2 h3 c d
      verified_never_reset[of jane_world sample_env Logout
        "[Signin (post \<lparr>sf_email = Some ''jane@x.com''\<rparr>) 5 42, Logout]"
        "''jane@x.com''" jane 5 42]
    by simp
qed

end
